theory Spec2Isabelle
  imports Complex_Main
begin

section \<open>Data model\<close>

text \<open>
  The stored procedures of the migration work on PostgreSQL values. A \<open>numeric\<close> is an
  exact decimal and is modelled as a rational; \<open>double precision\<close> (the result of
  \<open>radians\<close>, \<open>cos\<close>, \<open>sin\<close>, \<open>acos\<close>) is idealised as a real number, and a JavaScript
  number likewise. A \<open>timestamptz\<close> is an integer count of milliseconds since the epoch,
  a \<open>date\<close> an integer count of days, a \<open>uuid\<close> a natural number. A nullable column is an
  \<open>option\<close>, \<open>None\<close> being SQL NULL.
\<close>

type_synonym numeric = rat
type_synonym timestamptz = int
type_synonym date = int
type_synonym uuid = nat

definition hour_ms :: int where
  "hour_ms = 3600000"

definition day_ms :: int where
  "day_ms = 86400000"

subsection \<open>Table \<open>priority_rules\<close>\<close>

record priority_rule =
  factor_type :: string
  factor_value :: string
  priority_weight :: numeric
  is_active :: "bool option"

text \<open>The column constraint \<open>CHECK (priority_weight >= 0 AND priority_weight <= 1)\<close>.\<close>

definition priority_weight_check :: "priority_rule \<Rightarrow> bool" where
  "priority_weight_check r \<longleftrightarrow> 0 \<le> priority_weight r \<and> priority_weight r \<le> 1"

text \<open>The table constraint \<open>UNIQUE(factor_type, factor_value)\<close>.\<close>

definition priority_rules_unique :: "priority_rule list \<Rightarrow> bool" where
  "priority_rules_unique rules \<longleftrightarrow>
     (\<forall>r \<in> set rules. \<forall>r' \<in> set rules.
        factor_type r = factor_type r' \<and> factor_value r = factor_value r' \<longrightarrow>
        priority_weight r = priority_weight r')"

definition issue_rule :: "string \<Rightarrow> numeric \<Rightarrow> priority_rule" where
  "issue_rule v w =
     \<lparr>factor_type = ''issue_type'', factor_value = v, priority_weight = w,
      is_active = Some True\<rparr>"

text \<open>The rows the migration inserts (\<open>is_active\<close> takes its default \<open>true\<close>).\<close>

definition default_priority_rules :: "priority_rule list" where
  "default_priority_rules =
     [issue_rule ''pothole'' (7 / 10),
      issue_rule ''streetlight'' (8 / 10),
      issue_rule ''drainage'' (6 / 10),
      issue_rule ''garbage'' (4 / 10),
      issue_rule ''road_damage'' (75 / 100),
      issue_rule ''other'' (3 / 10)]"

section \<open>Priority scorer: \<open>calculate_priority_score\<close>\<close>

text \<open>
  \<open>SELECT priority_weight INTO v_base_score FROM priority_rules WHERE factor_type =
  'issue_type' AND factor_value = p_issue_type AND is_active = true\<close>: the first matching
  row, and NULL when there is none (a NULL \<open>is_active\<close> does not match).
\<close>

definition rule_matches :: "string \<Rightarrow> priority_rule \<Rightarrow> bool" where
  "rule_matches p_issue_type r \<longleftrightarrow>
     factor_type r = ''issue_type'' \<and> factor_value r = p_issue_type \<and> is_active r = Some True"

definition select_priority_weight :: "priority_rule list \<Rightarrow> string \<Rightarrow> numeric option" where
  "select_priority_weight rules p_issue_type =
     map_option priority_weight (find (rule_matches p_issue_type) rules)"

text \<open>\<open>v_base_score := COALESCE(v_base_score, 0.5)\<close>.\<close>

definition base_score :: "priority_rule list \<Rightarrow> string \<Rightarrow> numeric" where
  "base_score rules p_issue_type =
     (case select_priority_weight rules p_issue_type of None \<Rightarrow> 1 / 2 | Some w \<Rightarrow> w)"

text \<open>
  \<open>IF p_issue_type = 'streetlight' AND EXTRACT(HOUR FROM now()) NOT BETWEEN 6 AND 18 THEN
  v_time_multiplier := 1.3\<close>. The hour of \<open>now()\<close> is the argument \<open>hour\<close>; \<open>BETWEEN\<close>
  includes both of its bounds.
\<close>

definition time_multiplier :: "string \<Rightarrow> int \<Rightarrow> numeric" where
  "time_multiplier p_issue_type hour =
     (if p_issue_type = ''streetlight'' \<and> \<not> (6 \<le> hour \<and> hour \<le> 18) then 13 / 10 else 1)"

text \<open>\<open>LEAST(v, 1.0)\<close>: PostgreSQL's \<open>LEAST\<close> ignores a NULL argument.\<close>

definition least_one :: "numeric option \<Rightarrow> numeric" where
  "least_one v = (case v of None \<Rightarrow> 1 | Some x \<Rightarrow> min x 1)"

definition priority_of_score :: "numeric \<Rightarrow> string" where
  "priority_of_score s =
     (if s \<ge> 75 / 100 then ''critical''
      else if s \<ge> 55 / 100 then ''high''
      else if s \<ge> 35 / 100 then ''medium''
      else ''low'')"

text \<open>
  The function itself. \<open>p_lat\<close> and \<open>p_lng\<close> are parameters the body never reads;
  \<open>p_ai_confidence\<close> may be NULL, and then so is the product.
\<close>

definition calculate_priority_score ::
  "priority_rule list \<Rightarrow> int \<Rightarrow> string \<Rightarrow> numeric option \<Rightarrow> numeric option \<Rightarrow>
   numeric option \<Rightarrow> numeric \<times> string" where
  "calculate_priority_score rules hour p_issue_type p_lat p_lng p_ai_confidence =
     (let v_base_score = base_score rules p_issue_type;
          v_time_multiplier = time_multiplier p_issue_type hour;
          v_final_score =
            least_one (map_option
              (\<lambda>c. v_base_score * v_time_multiplier * (1 / 2 + c * (1 / 2))) p_ai_confidence)
      in (v_final_score, priority_of_score v_final_score))"

section \<open>Table \<open>civic_reports\<close> and the SLA configuration\<close>

text \<open>
  The \<open>status\<close> column is constrained by \<open>CHECK (status IN ('pending', 'in_progress',
  'resolved', 'rejected', 'reopened'))\<close>; \<open>priority\<close> stays a text, as the procedures
  compare and assign it as one.
\<close>

datatype report_status = Pending | In_progress | Resolved | Rejected | Reopened

record civic_report =
  cr_id :: uuid
  cr_user_id :: uuid
  issue_type :: string
  title :: string
  latitude :: "numeric option"
  longitude :: "numeric option"
  status :: report_status
  priority :: string
  ai_confidence :: "numeric option"
  resolved_at :: "timestamptz option"
  created_at :: "timestamptz option"
  priority_score :: "numeric option"
  sla_due_at :: "timestamptz option"
  escalation_level :: "int option"
  is_duplicate :: "bool option"
  duplicate_of :: "uuid option"

record sla_config_row =
  sla_priority :: string
  response_time_hours :: int
  resolution_time_hours :: int
  escalation_level_1_hours :: int
  escalation_level_2_hours :: int

definition sla_row :: "string \<Rightarrow> int \<Rightarrow> int \<Rightarrow> int \<Rightarrow> int \<Rightarrow> sla_config_row" where
  "sla_row p a b c d =
     \<lparr>sla_priority = p, response_time_hours = a, resolution_time_hours = b,
      escalation_level_1_hours = c, escalation_level_2_hours = d\<rparr>"

text \<open>The rows the migration inserts into \<open>sla_config\<close>.\<close>

definition default_sla_config :: "sla_config_row list" where
  "default_sla_config =
     [sla_row ''critical'' 2 24 4 12,
      sla_row ''high'' 8 72 24 48,
      sla_row ''medium'' 24 168 72 120,
      sla_row ''low'' 72 336 168 240]"

section \<open>SLA calculator: the trigger \<open>set_sla_due_date\<close>\<close>



text \<open>
  Inserting a row: the trigger runs first, then the table's constraints are checked (the
  primary key, and the \<open>CHECK\<close>s of the first migration on \<open>issue_type\<close>, on \<open>priority\<close>
  and on \<open>ai_confidence\<close>, the last of which a NULL passes), and the row is appended. No
  constraint mentions \<open>sla_due_at\<close> or \<open>sla_config\<close>. Row-level security and the audit
  trigger that runs after the insert are left out.
\<close>

datatype db_error = Unique_violation | Check_violation | Numeric_value_out_of_range



section \<open>Escalation sweep: the function \<open>check-sla-escalations\<close>\<close>

text \<open>
  The sweep is TypeScript. Its numbers are doubles; the quotient \<open>hoursElapsed\<close> is taken
  exactly, as a rational. A \<open>null\<close> in a comparison or an addition counts as \<open>0\<close>, and so does
  \<open>new Date(null).getTime()\<close>.
\<close>

definition js_number :: "int option \<Rightarrow> int" where
  "js_number v = (case v of None \<Rightarrow> 0 | Some n \<Rightarrow> n)"

definition Math_round :: "rat \<Rightarrow> int" where
  "Math_round x = \<lfloor>x + 1 / 2\<rfloor>"

fun digits :: "nat \<Rightarrow> string" where
  "digits n =
     (if n < 10 then [char_of (48 + n)] else digits (n div 10) @ [char_of (48 + n mod 10)])"

declare digits.simps [simp del]

definition show_int :: "int \<Rightarrow> string" where
  "show_int i = (if i < 0 then CHR ''-'' # digits (nat (- i)) else digits (nat i))"

record escalation =
  report_id :: uuid
  from_level :: int
  to_level :: int
  reason :: string

text \<open>
  A write to the database may fail; the sweep logs the failure and goes on to the next
  report. Which writes fail is a parameter of the model.
\<close>

record write_faults =
  update_fails :: "uuid \<Rightarrow> bool"
  insert_fails :: "uuid \<Rightarrow> bool"

definition no_faults :: write_faults where
  "no_faults = \<lparr>update_fails = (\<lambda>_. False), insert_fails = (\<lambda>_. False)\<rparr>"

text \<open>
  The state the loop works on: the two tables, and the local array \<open>escalations\<close> that the
  response returns.
\<close>

record sweep_state =
  civic_reports :: "civic_report list"
  escalations_table :: "escalation list"
  escalations :: "escalation list"

text \<open>
  \<open>.in('status', ['pending', 'in_progress', 'reopened']).not('sla_due_at', 'is', null)\<close>.
\<close>

definition activeReports :: "civic_report list \<Rightarrow> civic_report list" where
  "activeReports tbl =
     filter (\<lambda>r. status r \<in> {Pending, In_progress, Reopened} \<and> sla_due_at r \<noteq> None) tbl"

text \<open>\<open>new Map(slaConfigs.map(s => [s.priority, s]))\<close>: a later entry replaces an earlier one.\<close>

definition slaMap :: "sla_config_row list \<Rightarrow> string \<Rightarrow> sla_config_row option" where
  "slaMap slaConfigs = map_of (rev (map (\<lambda>s. (sla_priority s, s)) slaConfigs))"

definition hoursElapsed :: "timestamptz \<Rightarrow> civic_report \<Rightarrow> rat" where
  "hoursElapsed now report = of_int (now - js_number (created_at report)) / of_int hour_ms"

definition newLevel :: "rat \<Rightarrow> sla_config_row \<Rightarrow> int option \<Rightarrow> int option" where
  "newLevel h slaConfig lvl =
     (if h > of_int (escalation_level_2_hours slaConfig) \<and> js_number lvl < 2 then Some 2
      else if h > of_int (escalation_level_1_hours slaConfig) \<and> js_number lvl < 1 then Some 1
      else lvl)"

definition escalation_reason :: "int option \<Rightarrow> rat \<Rightarrow> sla_config_row \<Rightarrow> string" where
  "escalation_reason nl h slaConfig =
     (if nl = Some 2
      then ''SLA Level 2 breach - '' @ show_int (Math_round h) @ ''h elapsed (threshold: ''
             @ show_int (escalation_level_2_hours slaConfig) @ ''h)''
      else ''SLA Level 1 breach - '' @ show_int (Math_round h) @ ''h elapsed (threshold: ''
             @ show_int (escalation_level_1_hours slaConfig) @ ''h)'')"

text \<open>\<open>.update({ escalation_level: newLevel }).eq('id', report.id)\<close>.\<close>

definition update_escalation_level ::
  "uuid \<Rightarrow> int option \<Rightarrow> civic_report list \<Rightarrow> civic_report list" where
  "update_escalation_level i nl tbl =
     map (\<lambda>r. if cr_id r = i then r\<lparr>escalation_level := nl\<rparr> else r) tbl"

text \<open>
  One turn of the loop, for one fetched report. The column \<open>from_level\<close> of \<open>escalations\<close>
  is \<open>NOT NULL\<close>, so the insert of a row whose \<open>from_level\<close> is \<open>null\<close> fails like any other
  failed insert: after the update, and before the push to the local array.
\<close>

definition sweep_report ::
  "write_faults \<Rightarrow> timestamptz \<Rightarrow> (string \<Rightarrow> sla_config_row option) \<Rightarrow> sweep_state \<Rightarrow>
   civic_report \<Rightarrow> sweep_state" where
  "sweep_report w now m st report =
     (case m (priority report) of
        None \<Rightarrow> st
      | Some slaConfig \<Rightarrow>
          (let h = hoursElapsed now report;
               nl = newLevel h slaConfig (escalation_level report)
           in if js_number nl > js_number (escalation_level report)
              then (if update_fails w (cr_id report) then st
                    else (let st1 = st\<lparr>civic_reports :=
                                update_escalation_level (cr_id report) nl (civic_reports st)\<rparr>
                          in case escalation_level report of
                               None \<Rightarrow> st1
                             | Some lvl \<Rightarrow>
                                 (if insert_fails w (cr_id report) then st1
                                  else (let e = \<lparr>report_id = cr_id report, from_level = lvl,
                                                 to_level = js_number nl,
                                                 reason = escalation_reason nl h slaConfig\<rparr>
                                        in st1\<lparr>escalations_table := escalations_table st1 @ [e],
                                               escalations := escalations st1 @ [e]\<rparr>))))
              else st))"

text \<open>
  The whole sweep: both tables are read once, then the loop runs over the fetched reports.
  The two reads are taken to succeed (when one fails the function throws before it writes).
\<close>

definition check_sla_escalations ::
  "write_faults \<Rightarrow> timestamptz \<Rightarrow> sla_config_row list \<Rightarrow> civic_report list \<Rightarrow>
   escalation list \<Rightarrow> sweep_state" where
  "check_sla_escalations w now slaConfigs tbl etbl =
     foldl (sweep_report w now (slaMap slaConfigs))
       \<lparr>civic_reports = tbl, escalations_table = etbl, escalations = []\<rparr>
       (activeReports tbl)"

section \<open>Status updates in \<open>ReportsList\<close>\<close>

text \<open>
  \<open>handleUpdateReport\<close> is the staff update: \<open>user\<close> and \<open>updateStatus\<close> are component state
  (no user, or the empty selection, is \<open>None\<close>), \<open>report\<close> is the component's copy of the
  row. \<open>report.escalation_level || 0\<close> reads \<open>null\<close> and \<open>0\<close> as \<open>0\<close>. The update is
  taken to be written: the component does not look at the error that the client returns.
\<close>

record update_data =
  ud_status :: report_status
  ud_resolved_at :: "timestamptz option option"
  ud_escalation_level :: "int option"

definition apply_update :: "update_data \<Rightarrow> civic_report \<Rightarrow> civic_report" where
  "apply_update u r =
     (let r1 = r\<lparr>status := ud_status u\<rparr>;
          r2 = (case ud_resolved_at u of None \<Rightarrow> r1 | Some v \<Rightarrow> r1\<lparr>resolved_at := v\<rparr>)
      in case ud_escalation_level u of None \<Rightarrow> r2 | Some l \<Rightarrow> r2\<lparr>escalation_level := Some l\<rparr>)"

definition update_civic_report ::
  "update_data \<Rightarrow> uuid \<Rightarrow> civic_report list \<Rightarrow> civic_report list" where
  "update_civic_report u reportId tbl =
     map (\<lambda>r. if cr_id r = reportId then apply_update u r else r) tbl"

definition handleUpdateReport ::
  "uuid option \<Rightarrow> report_status option \<Rightarrow> timestamptz \<Rightarrow> uuid \<Rightarrow> civic_report \<Rightarrow>
   civic_report list \<Rightarrow> civic_report list" where
  "handleUpdateReport user updateStatus now reportId report tbl =
     (case (user, updateStatus) of
        (Some _, Some s) \<Rightarrow>
          (let updateData =
                 (if s = Resolved
                  then \<lparr>ud_status = s, ud_resolved_at = Some (Some now),
                        ud_escalation_level = None\<rparr>
                  else if s = Reopened
                  then \<lparr>ud_status = s, ud_resolved_at = Some None,
                        ud_escalation_level = Some (js_number (escalation_level report) + 1)\<rparr>
                  else \<lparr>ud_status = s, ud_resolved_at = None, ud_escalation_level = None\<rparr>)
           in update_civic_report updateData reportId tbl)
      | _ \<Rightarrow> tbl)"

text \<open>\<open>handleReopenReport\<close> is the submitter's reopen, offered when \<open>canReopenReport\<close> holds.\<close>

definition canReopenReport :: "uuid option \<Rightarrow> civic_report \<Rightarrow> bool" where
  "canReopenReport user report \<longleftrightarrow> user = Some (cr_user_id report) \<and> status report = Resolved"

definition handleReopenReport :: "uuid option \<Rightarrow> uuid \<Rightarrow> civic_report list \<Rightarrow> civic_report list" where
  "handleReopenReport user reportId tbl =
     (case user of
        None \<Rightarrow> tbl
      | Some _ \<Rightarrow>
          update_civic_report
            \<lparr>ud_status = Reopened, ud_resolved_at = Some None, ud_escalation_level = None\<rparr>
            reportId tbl)"

section \<open>Rate limiter: \<open>check_and_update_rate_limit\<close>\<close>

text \<open>
  Table \<open>user_rate_limits\<close>, keyed by its primary key \<open>user_id\<close>. The counters and flags
  carry column defaults and the procedure never writes NULL to them, so they are plain
  values; the two timestamps that the procedure tests for NULL or leaves unset are options.
\<close>

record user_rate_limit =
  reports_today :: int
  reports_this_hour :: int
  last_report_at :: "timestamptz option"
  daily_reset_at :: date
  hourly_reset_at :: timestamptz
  is_trusted :: bool
  is_blocked :: bool
  blocked_until :: "timestamptz option"

definition CURRENT_DATE :: "timestamptz \<Rightarrow> date" where
  "CURRENT_DATE now = now div day_ms"

definition date_trunc_hour :: "timestamptz \<Rightarrow> timestamptz" where
  "date_trunc_hour now = now - now mod hour_ms"

text \<open>\<open>INSERT INTO user_rate_limits (user_id) VALUES (p_user_id)\<close>: every column its default.\<close>

definition new_rate_limit :: "timestamptz \<Rightarrow> user_rate_limit" where
  "new_rate_limit now =
     \<lparr>reports_today = 0, reports_this_hour = 0, last_report_at = None,
      daily_reset_at = CURRENT_DATE now, hourly_reset_at = date_trunc_hour now,
      is_trusted = False, is_blocked = False, blocked_until = None\<rparr>"

text \<open>The JSON object the procedure returns; an absent key is \<open>None\<close>.\<close>

datatype json_time = Timestamp timestamptz | Date date

record rate_limit_json =
  allowed :: bool
  rl_reason :: "string option"
  remaining_hourly :: "int option"
  remaining_daily :: "int option"
  reset_at :: "json_time option"
  rl_blocked_until :: "timestamptz option option"

definition rl_allowed :: "int \<Rightarrow> int \<Rightarrow> rate_limit_json" where
  "rl_allowed h d =
     \<lparr>allowed = True, rl_reason = None, remaining_hourly = Some h, remaining_daily = Some d,
      reset_at = None, rl_blocked_until = None\<rparr>"

definition rl_denied :: "string \<Rightarrow> json_time \<Rightarrow> rate_limit_json" where
  "rl_denied msg t =
     \<lparr>allowed = False, rl_reason = Some msg, remaining_hourly = None,
      remaining_daily = None, reset_at = Some t, rl_blocked_until = None\<rparr>"

definition rl_blocked :: "timestamptz option \<Rightarrow> rate_limit_json" where
  "rl_blocked b =
     \<lparr>allowed = False, rl_reason = Some ''User is blocked'', remaining_hourly = None,
      remaining_daily = None, reset_at = None, rl_blocked_until = Some b\<rparr>"

text \<open>
  The procedure, in the order of its statements. The local row \<open>v_limits\<close> is read once;
  the two reset statements update the table and the local copy alike.
\<close>

definition check_and_update_rate_limit ::
  "timestamptz \<Rightarrow> uuid \<Rightarrow> (uuid \<Rightarrow> user_rate_limit option) \<Rightarrow>
   rate_limit_json \<times> (uuid \<Rightarrow> user_rate_limit option)" where
  "check_and_update_rate_limit now p_user_id tbl =
     (case tbl p_user_id of
        None \<Rightarrow> (rl_allowed 3 10, tbl(p_user_id \<mapsto> new_rate_limit now))
      | Some v0 \<Rightarrow>
          (if is_blocked v0 \<and> (case blocked_until v0 of None \<Rightarrow> True | Some b \<Rightarrow> b > now)
           then (rl_blocked (blocked_until v0), tbl)
           else
             (let v1 = (if daily_reset_at v0 < CURRENT_DATE now
                        then v0\<lparr>reports_today := 0, daily_reset_at := CURRENT_DATE now\<rparr>
                        else v0);
                  v2 = (if hourly_reset_at v1 < date_trunc_hour now
                        then v1\<lparr>reports_this_hour := 0, hourly_reset_at := date_trunc_hour now\<rparr>
                        else v1);
                  tbl2 = tbl(p_user_id \<mapsto> v2);
                  v_max_hourly = (if is_trusted v2 then 10 else 3);
                  v_max_daily = (if is_trusted v2 then 50 else 10)
              in if reports_this_hour v2 \<ge> v_max_hourly
                 then (rl_denied ''Hourly limit reached''
                         (Timestamp (date_trunc_hour now + hour_ms)), tbl2)
                 else if reports_today v2 \<ge> v_max_daily
                 then (rl_denied ''Daily limit reached'' (Date (CURRENT_DATE now + 1)), tbl2)
                 else (rl_allowed (v_max_hourly - reports_this_hour v2 - 1)
                         (v_max_daily - reports_today v2 - 1),
                       tbl2(p_user_id \<mapsto>
                         v2\<lparr>reports_today := reports_today v2 + 1,
                            reports_this_hour := reports_this_hour v2 + 1,
                            last_report_at := Some now\<rparr>)))))"

section \<open>Duplicate detector: \<open>check_duplicate_report\<close>\<close>

definition radians :: "real \<Rightarrow> real" where
  "radians d = d * pi / 180"

text \<open>
  The query computes the distance in double precision. The model computes in the real
  numbers and takes the error that double precision leaves in the value handed to \<open>acos\<close>
  as a parameter \<open>err\<close>, a function of the four coordinates; \<open>no_rounding\<close> is the
  computation without error. The rounding of \<open>acos\<close> itself and of the product with the
  radius is left out.
\<close>

type_synonym rounding_error = "numeric \<Rightarrow> numeric \<Rightarrow> numeric \<Rightarrow> numeric \<Rightarrow> real"

definition no_rounding :: rounding_error where
  "no_rounding = (\<lambda>_ _ _ _. 0)"

text \<open>The value under \<open>acos\<close>: the spherical law of cosines.\<close>

definition cos_angle :: "rounding_error \<Rightarrow> numeric \<Rightarrow> numeric \<Rightarrow> numeric \<Rightarrow> numeric \<Rightarrow> real" where
  "cos_angle err p_lat p_lng lat lng =
     cos (radians (of_rat p_lat)) * cos (radians (of_rat lat)) *
     cos (radians (of_rat lng) - radians (of_rat p_lng)) +
     sin (radians (of_rat p_lat)) * sin (radians (of_rat lat)) +
     err p_lat p_lng lat lng"

text \<open>
  PostgreSQL's \<open>acos\<close> raises \<open>input is out of range\<close> for an argument outside
  \<open>[-1, 1]\<close>, which the rounded value reaches for some pairs of identical points.
\<close>

definition acos :: "real \<Rightarrow> db_error + real" where
  "acos x = (if x < - 1 \<or> 1 < x then Inl Numeric_value_out_of_range else Inr (arccos x))"

text \<open>The distance expression of the query, in metres, on a sphere of radius 6371000.\<close>

definition great_circle ::
  "rounding_error \<Rightarrow> numeric \<Rightarrow> numeric \<Rightarrow> numeric \<Rightarrow> numeric \<Rightarrow> db_error + real" where
  "great_circle err p_lat p_lng lat lng =
     (case acos (cos_angle err p_lat p_lng lat lng) of
        Inl e \<Rightarrow> Inl e
      | Inr a \<Rightarrow> Inr (6371000 * a))"

text \<open>
  \<open>ROUND\<close> of a \<open>double precision\<close> rounds a tie to the even neighbour (on the usual
  platforms); \<open>ROUND\<close> of a \<open>numeric\<close>, which the quotient of the extracted epoch by
  3600 is, rounds a tie away from zero.
\<close>

definition round_double :: "real \<Rightarrow> int" where
  "round_double x =
     (let f = \<lfloor>x\<rfloor>
      in if x - of_int f < 1 / 2 then f
         else if x - of_int f > 1 / 2 then f + 1
         else if even f then f else f + 1)"

definition round_numeric :: "rat \<Rightarrow> int" where
  "round_numeric x = (if x \<ge> 0 then \<lfloor>x + 1 / 2\<rfloor> else - \<lfloor>- x + 1 / 2\<rfloor>)"

record duplicate_match =
  dm_is_duplicate :: bool
  existing_report_id :: uuid
  existing_title :: string
  distance_meters :: int
  hours_ago :: "int option"

text \<open>
  The \<open>WHERE\<close> clause for one row, its conditions taken in the written order, the
  distance last: a row that an earlier condition rejects does not reach \<open>acos\<close>. The
  result is the distance of a selected row, \<open>None\<close> for a row that is not selected (a
  NULL in \<open>created_at\<close> or in a coordinate selects no row), or the error raised.
\<close>

definition where_distance ::
  "rounding_error \<Rightarrow> timestamptz \<Rightarrow> numeric \<Rightarrow> numeric \<Rightarrow> string \<Rightarrow> int \<Rightarrow> int \<Rightarrow>
   civic_report \<Rightarrow> db_error + real option" where
  "where_distance err now p_lat p_lng p_issue_type p_radius_meters p_time_window_hours cr =
     (if issue_type cr \<noteq> p_issue_type then Inr None
      else if status cr \<in> {Resolved, Rejected} then Inr None
      else case created_at cr of
             None \<Rightarrow> Inr None
           | Some t \<Rightarrow>
               (if \<not> t > now - p_time_window_hours * hour_ms then Inr None
                else case latitude cr of
                       None \<Rightarrow> Inr None
                     | Some lat \<Rightarrow>
                         (case longitude cr of
                            None \<Rightarrow> Inr None
                          | Some lng \<Rightarrow>
                              (case great_circle err p_lat p_lng lat lng of
                                 Inl e \<Rightarrow> Inl e
                               | Inr d \<Rightarrow>
                                   Inr (if d \<le> of_int p_radius_meters then Some d
                                        else None)))))"


text \<open>
  The scan of the table: the selected rows with their distances, in the order of the
  table, or the error of the first row that raises.
\<close>

fun scan_rows :: "('a \<Rightarrow> db_error + 'b option) \<Rightarrow> 'a list \<Rightarrow> db_error + ('a \<times> 'b) list" where
  "scan_rows q [] = Inr []"
| "scan_rows q (x # xs) =
     (case q x of
        Inl e \<Rightarrow> Inl e
      | Inr v \<Rightarrow>
          (case scan_rows q xs of
             Inl e \<Rightarrow> Inl e
           | Inr ys \<Rightarrow> Inr (case v of None \<Rightarrow> ys | Some d \<Rightarrow> (x, d) # ys)))"

text \<open>
  The \<open>SELECT\<close> list, for a selected row and its distance. \<open>now() - cr.created_at\<close> is
  NULL for a NULL \<open>created_at\<close>.
\<close>

definition hrs_ago :: "timestamptz \<Rightarrow> civic_report \<Rightarrow> int option" where
  "hrs_ago now cr =
     map_option (\<lambda>t. round_numeric (of_int (now - t) / of_int hour_ms)) (created_at cr)"

definition select_match :: "timestamptz \<Rightarrow> civic_report \<Rightarrow> real \<Rightarrow> duplicate_match" where
  "select_match now cr d =
     \<lparr>dm_is_duplicate = True, existing_report_id = cr_id cr, existing_title = title cr,
      distance_meters = round_double d, hours_ago = hrs_ago now cr\<rparr>"

text \<open>
  The query: \<open>ORDER BY dist_meters LIMIT 1\<close>. The sort key is the rounded distance and
  there is no second key; rows with equal keys keep the order in which the scan of the
  table yields them, which is the order of the list \<open>tbl\<close>. The argument \<open>p_user_id\<close> is
  declared and never read. The function returns its rows, or the error that the scan
  raised.
\<close>

definition check_duplicate_report ::
  "rounding_error \<Rightarrow> civic_report list \<Rightarrow> timestamptz \<Rightarrow> numeric \<Rightarrow> numeric \<Rightarrow> string \<Rightarrow>
   uuid \<Rightarrow> int \<Rightarrow> int \<Rightarrow> db_error + duplicate_match list" where
  "check_duplicate_report err tbl now p_lat p_lng p_issue_type p_user_id p_radius_meters
     p_time_window_hours =
     (case scan_rows (where_distance err now p_lat p_lng p_issue_type p_radius_meters
                        p_time_window_hours) tbl of
        Inl e \<Rightarrow> Inl e
      | Inr rows \<Rightarrow>
          Inr (take 1 (sort_key distance_meters
                 (map (\<lambda>(cr, d). select_match now cr d) rows))))"


section \<open>Submission in \<open>ReportForm\<close>\<close>

text \<open>
  The component state that \<open>checkForDuplicates\<close> and \<open>handleSubmit\<close> read and write. An
  undefined field of \<open>DuplicateWarning\<close> is \<open>None\<close>.
\<close>

record DuplicateWarning =
  dw_show :: bool
  existingId :: "uuid option"
  existingTitle :: "string option"
  distance :: "int option"
  hoursAgo :: "int option"




record form_state =
  user :: "uuid option"
  hasPermission :: bool
  issueType :: string
  selectedCategory :: "string option"
  form_title :: string
  location :: "(numeric \<times> numeric) option"
  aiClassification :: "(string \<times> numeric) option"
  duplicateWarning :: DuplicateWarning
  forceSubmit :: bool



section \<open>Fixtures and derived notions\<close>

text \<open>A pending pothole report at the origin, used for the concrete runs below.\<close>

definition report_fixture :: "uuid \<Rightarrow> uuid \<Rightarrow> string \<Rightarrow> timestamptz \<Rightarrow> civic_report" where
  "report_fixture i u p t =
     \<lparr>cr_id = i, cr_user_id = u, issue_type = ''pothole'', title = ''Pothole'',
      latitude = Some 0, longitude = Some 0, status = Pending, priority = p,
      ai_confidence = Some 0, resolved_at = None, created_at = Some t,
      priority_score = Some (1 / 2), sla_due_at = None, escalation_level = Some 0,
      is_duplicate = Some False, duplicate_of = None\<rparr>"

text \<open>
  The same report as the sweep sees it in the scenario of the specification: priority
  \<open>high\<close>, created at time \<open>0\<close>, due after 72 hours, at escalation level \<open>lvl\<close>.
\<close>

definition active_fixture :: "int \<Rightarrow> civic_report" where
  "active_fixture lvl =
     (report_fixture 1 7 ''high'' 0)\<lparr>sla_due_at := Some (72 * hour_ms),
                                       escalation_level := Some lvl\<rparr>"

text \<open>The same report created at time \<open>t\<close> and due 72 hours later.\<close>

definition active_fixture_at :: "timestamptz \<Rightarrow> int \<Rightarrow> civic_report" where
  "active_fixture_at t lvl =
     (report_fixture 1 7 ''high'' t)\<lparr>sla_due_at := Some (t + 72 * hour_ms),
                                       escalation_level := Some lvl\<rparr>"

text \<open>
  A rule table in which the rule for potholes is deactivated and the flag of the rule for
  garbage is NULL.
\<close>

definition deactivated_rules :: "priority_rule list" where
  "deactivated_rules =
     [(issue_rule ''pothole'' (7 / 10))\<lparr>is_active := Some False\<rparr>,
      issue_rule ''streetlight'' (8 / 10),
      (issue_rule ''garbage'' (4 / 10))\<lparr>is_active := None\<rparr>]"

text \<open>The filter of \<open>activeReports\<close>, as a predicate on one row.\<close>

definition is_active_report :: "civic_report \<Rightarrow> bool" where
  "is_active_report r \<longleftrightarrow> status r \<in> {Pending, In_progress, Reopened} \<and> sla_due_at r \<noteq> None"

text \<open>
  What one turn of the sweep's loop, for the fetched report \<open>report\<close>, does to a row of
  the table; and what the whole sweep does to a row. Both are stated here and proved
  equal to the loop below.
\<close>

definition sweep_row_by ::
  "write_faults \<Rightarrow> timestamptz \<Rightarrow> (string \<Rightarrow> sla_config_row option) \<Rightarrow> civic_report \<Rightarrow>
   civic_report \<Rightarrow> civic_report" where
  "sweep_row_by w now m report row =
     (case m (priority report) of
        None \<Rightarrow> row
      | Some slaConfig \<Rightarrow>
          (let nl = newLevel (hoursElapsed now report) slaConfig (escalation_level report)
           in if js_number nl > js_number (escalation_level report)
                 \<and> \<not> update_fails w (cr_id report) \<and> cr_id row = cr_id report
              then row\<lparr>escalation_level := nl\<rparr> else row))"

definition sweep_row ::
  "write_faults \<Rightarrow> timestamptz \<Rightarrow> sla_config_row list \<Rightarrow> civic_report \<Rightarrow> civic_report" where
  "sweep_row w now slaConfigs r =
     (if is_active_report r \<and> \<not> update_fails w (cr_id r)
      then (case slaMap slaConfigs (priority r) of
              None \<Rightarrow> r
            | Some slaConfig \<Rightarrow>
                r\<lparr>escalation_level :=
                    newLevel (hoursElapsed now r) slaConfig (escalation_level r)\<rparr>)
      else r)"

text \<open>Successive calls of the rate limiter by one submitter, at the given times.\<close>

fun rate_limit_calls ::
  "timestamptz list \<Rightarrow> uuid \<Rightarrow> (uuid \<Rightarrow> user_rate_limit option) \<Rightarrow>
   rate_limit_json list \<times> (uuid \<Rightarrow> user_rate_limit option)" where
  "rate_limit_calls [] u tbl = ([], tbl)"
| "rate_limit_calls (t # ts) u tbl =
     (let r1 = check_and_update_rate_limit t u tbl;
          r2 = rate_limit_calls ts u (snd r1)
      in (fst r1 # fst r2, snd r2))"






text \<open>
  A report at latitude 15.38 and longitude 77.5946, and the error of double precision for
  a query from that very point: the value under \<open>acos\<close> comes out as
  \<open>1.0000000000000002\<close>, one unit in the last place above 1.
\<close>

definition colocated_fixture :: civic_report where
  "colocated_fixture =
     (report_fixture 1 7 ''medium'' 0)\<lparr>latitude := Some (769 / 50),
                                         longitude := Some (387973 / 5000)\<rparr>"

definition colocated_rounding :: rounding_error where
  "colocated_rounding =
     (\<lambda>p_lat p_lng lat lng.
        if p_lat = 769 / 50 \<and> p_lng = 387973 / 5000 \<and> lat = 769 / 50 \<and> lng = 387973 / 5000
        then 1 / 2 ^ 52 else 0)"






section \<open>Properties of the priority scorer\<close>

lemma find_rule_in_set:
  "find P rules = Some r \<Longrightarrow> r \<in> set rules \<and> P r"
  by (induction rules) (auto split: if_splits)

lemma base_score_default:
  assumes "\<forall>r \<in> set rules. \<not> rule_matches t r"
  shows "base_score rules t = 1 / 2"
proof -
  from assms have "find (rule_matches t) rules = None"
    by (simp add: find_None_iff)
  then show ?thesis
    by (simp add: base_score_def select_priority_weight_def)
qed

lemma base_score_range:
  assumes "\<forall>r \<in> set rules. priority_weight_check r"
  shows "0 \<le> base_score rules t \<and> base_score rules t \<le> 1"
proof (cases "find (rule_matches t) rules")
  case None
  then show ?thesis
    by (simp add: base_score_def select_priority_weight_def)
next
  case (Some r)
  then have "r \<in> set rules" by (simp add: find_rule_in_set)
  with assms have "priority_weight_check r" by blast
  with Some show ?thesis
    by (simp add: base_score_def select_priority_weight_def priority_weight_check_def)
qed

lemma time_multiplier_pos: "0 < time_multiplier t h"
  by (simp add: time_multiplier_def)

lemma time_multiplier_cases: "time_multiplier t h = 13 / 10 \<or> time_multiplier t h = 1"
  by (simp add: time_multiplier_def)

lemma base_score_rule:
  assumes "priority_rules_unique rules" "r \<in> set rules" "rule_matches t r"
  shows "base_score rules t = priority_weight r"
proof -
  from assms(2,3) obtain r' where f: "find (rule_matches t) rules = Some r'"
    by (cases "find (rule_matches t) rules") (auto simp: find_None_iff)
  then have "r' \<in> set rules" "rule_matches t r'"
    using find_rule_in_set[OF f] by simp_all
  with assms have "priority_weight r' = priority_weight r"
    unfolding priority_rules_unique_def rule_matches_def by metis
  with f show ?thesis
    by (simp add: base_score_def select_priority_weight_def)
qed

lemma score_range:
  assumes "\<forall>r \<in> set rules. priority_weight_check r" "0 \<le> c" "c \<le> 1"
  shows "0 \<le> fst (calculate_priority_score rules hour t lat lng (Some c))
       \<and> fst (calculate_priority_score rules hour t lat lng (Some c)) \<le> 1"
proof -
  from assms(1) have b: "0 \<le> base_score rules t" by (simp add: base_score_range)
  have m: "0 \<le> time_multiplier t hour" using time_multiplier_pos[of t hour] by simp
  have k: "0 \<le> 1 / 2 + c * (1 / 2)" using assms(2) by simp
  have "0 \<le> base_score rules t * time_multiplier t hour * (1 / 2 + c * (1 / 2))"
    using b m k by simp
  then show ?thesis
    by (simp add: calculate_priority_score_def least_one_def Let_def)
qed

text \<open>
  Claim C1. For rules whose weights lie in \<open>[0, 1]\<close> and are unique per factor type and
  value (the constraints of their table), every issue type and every confidence in
  \<open>[0, 1]\<close>, the scorer returns the base weight times the time multiplier times \<open>1 / 2 +
  confidence / 2\<close>, capped at \<open>1\<close>. The base weight is the weight of the rule of factor
  type \<open>issue_type\<close> whose value is the issue type and whose \<open>is_active\<close> is true, and
  \<open>1 / 2\<close> when the table holds no such rule; a deactivated rule contributes nothing. The
  time multiplier is \<open>1.3\<close> for a streetlight outside the hours 6 to 18 and \<open>1\<close> otherwise.
  The score lies in \<open>[0, 1]\<close>, and the tier is read off the score at the thresholds
  \<open>0.75\<close>, \<open>0.55\<close> and \<open>0.35\<close>.
\<close>

theorem calculate_priority_score_spec:
  assumes "\<forall>r \<in> set rules. 0 \<le> priority_weight r \<and> priority_weight r \<le> 1"
    and "\<forall>r \<in> set rules. \<forall>r' \<in> set rules.
           factor_type r = factor_type r' \<and> factor_value r = factor_value r' \<longrightarrow>
           priority_weight r = priority_weight r'"
    and "0 \<le> c" and "c \<le> 1"
  shows "(let (score, tier) = calculate_priority_score rules hour t lat lng (Some c);
              active = (\<lambda>r :: priority_rule.
                          factor_type r = ''issue_type'' \<and> factor_value r = t
                          \<and> is_active r = Some True);
              baseWeight = (case find active rules of
                              None \<Rightarrow> 1 / 2 | Some r \<Rightarrow> priority_weight r);
              timeMultiplier = (if t = ''streetlight'' \<and> \<not> (6 \<le> hour \<and> hour \<le> 18)
                                then 13 / 10 else 1)
          in score = min (baseWeight * timeMultiplier * (1 / 2 + c * (1 / 2))) 1
           \<and> (\<forall>r \<in> set rules. active r \<longrightarrow> baseWeight = priority_weight r)
           \<and> ((\<forall>r \<in> set rules. \<not> active r) \<longrightarrow> baseWeight = 1 / 2)
           \<and> 0 \<le> score \<and> score \<le> 1
           \<and> tier = (if score \<ge> 75 / 100 then ''critical''
                     else if score \<ge> 55 / 100 then ''high''
                     else if score \<ge> 35 / 100 then ''medium''
                     else ''low''))"
proof -
  have chk: "\<forall>r \<in> set rules. priority_weight_check r"
    using assms(1) by (simp add: priority_weight_check_def)
  have uniq: "priority_rules_unique rules"
    using assms(2) unfolding priority_rules_unique_def .
  obtain score tier where p: "calculate_priority_score rules hour t lat lng (Some c) = (score, tier)"
    by (cases "calculate_priority_score rules hour t lat lng (Some c)")
  have act: "(\<lambda>r :: priority_rule. factor_type r = ''issue_type'' \<and> factor_value r = t
                          \<and> is_active r = Some True) = rule_matches t"
    by (rule ext) (simp add: rule_matches_def)
  define bw where "bw = (case find (rule_matches t) rules of
                              None \<Rightarrow> 1 / 2 | Some r \<Rightarrow> priority_weight r)"
  have bw: "bw = base_score rules t"
    by (simp add: bw_def base_score_def select_priority_weight_def split: option.splits)
  have tm: "(if t = ''streetlight'' \<and> \<not> (6 \<le> hour \<and> hour \<le> 18) then 13 / 10 else 1)
            = time_multiplier t hour"
    by (simp add: time_multiplier_def)
  have r1: "\<forall>r \<in> set rules. rule_matches t r \<longrightarrow> bw = priority_weight r"
    using base_score_rule[OF uniq] bw by simp
  have r2: "(\<forall>r \<in> set rules. \<not> rule_matches t r) \<longrightarrow> bw = 1 / 2"
    using base_score_default[of rules t] bw by simp
  have r3: "0 \<le> score \<and> score \<le> 1"
    using score_range[OF chk assms(3,4), of hour t lat lng] p by simp
  have r4: "score = min (bw * time_multiplier t hour * (1 / 2 + c * (1 / 2))) 1"
    using p unfolding bw by (simp add: calculate_priority_score_def least_one_def Let_def)
  have r5: "tier = priority_of_score score"
    using p by (auto simp add: calculate_priority_score_def Let_def)
  have r6: "tier = (if score \<ge> 75 / 100 then ''critical''
                     else if score \<ge> 55 / 100 then ''high''
                     else if score \<ge> 35 / 100 then ''medium''
                     else ''low'')"
    unfolding r5 priority_of_score_def ..
  show ?thesis
    unfolding p Let_def prod.case act tm bw_def[symmetric]
    using r1 r2 r3 r4 r6 by blast
qed

text \<open>
  In \<open>deactivated_rules\<close> the pothole rule (weight \<open>0.7\<close>) is deactivated and the garbage
  rule (weight \<open>0.4\<close>) has \<open>is_active\<close> NULL: both issue types score with the default
  \<open>0.5\<close>. The streetlight rule (weight \<open>0.8\<close>) is active.
\<close>

theorem calculate_priority_score_spec_witness:
  "list_all (\<lambda>r. 0 \<le> priority_weight r \<and> priority_weight r \<le> 1) deactivated_rules
   \<and> map is_active deactivated_rules = [Some False, Some True, None]
   \<and> calculate_priority_score deactivated_rules 14 ''pothole'' None None (Some (1 / 2))
       = (3 / 8, ''medium'')
   \<and> calculate_priority_score deactivated_rules 14 ''garbage'' None None (Some 1)
       = (1 / 2, ''medium'')
   \<and> calculate_priority_score deactivated_rules 14 ''streetlight'' None None (Some 1)
       = (4 / 5, ''critical'')
   \<and> calculate_priority_score deactivated_rules 20 ''streetlight'' None None (Some (1 / 2))
       = (39 / 50, ''critical'')"
proof -
  have a: "\<forall>r \<in> set deactivated_rules. 0 \<le> priority_weight r \<and> priority_weight r \<le> 1"
    by (simp add: deactivated_rules_def issue_rule_def)
  have b: "\<forall>r \<in> set deactivated_rules. \<forall>r' \<in> set deactivated_rules.
           factor_type r = factor_type r' \<and> factor_value r = factor_value r' \<longrightarrow>
           priority_weight r = priority_weight r'"
    by (simp add: deactivated_rules_def issue_rule_def)
  have c: "(0::rat) \<le> 1 / 2" "(1 / 2 :: rat) \<le> 1" "(0::rat) \<le> 1" "(1::rat) \<le> 1"
    by simp_all
  show ?thesis
    using a calculate_priority_score_spec[OF a b c(1,2), of 14 "''pothole''" None None]
      calculate_priority_score_spec[OF a b c(3,4), of 14 "''garbage''" None None]
      calculate_priority_score_spec[OF a b c(3,4), of 14 "''streetlight''" None None]
      calculate_priority_score_spec[OF a b c(1,2), of 20 "''streetlight''" None None]
    by (simp add: list_all_iff Let_def case_prod_beta deactivated_rules_def issue_rule_def
        prod_eq_iff)
qed

section \<open>Properties of the escalation sweep\<close>

lemma sweep_row_by_skip:
  assumes "m (priority report) = None
           \<or> (\<exists>c. m (priority report) = Some c
                \<and> \<not> (js_number (newLevel (hoursElapsed now report) c (escalation_level report))
                       > js_number (escalation_level report)
                     \<and> \<not> update_fails w (cr_id report)))"
  shows "sweep_report w now m st report = st"
    and "map (sweep_row_by w now m report) tbl = tbl"
  using assms
  by (auto simp add: sweep_report_def sweep_row_by_def Let_def intro: map_idI
      split: option.splits)

lemma civic_reports_sweep_report:
  "civic_reports (sweep_report w now m st report)
   = map (sweep_row_by w now m report) (civic_reports st)"
proof (cases "m (priority report) = None
           \<or> (\<exists>c. m (priority report) = Some c
                \<and> \<not> (js_number (newLevel (hoursElapsed now report) c (escalation_level report))
                       > js_number (escalation_level report)
                     \<and> \<not> update_fails w (cr_id report)))")
  case True
  from True have "sweep_report w now m st report = st"
    by (rule sweep_row_by_skip(1))
  moreover from True
  have "map (sweep_row_by w now m report) (civic_reports st) = civic_reports st"
    by (rule sweep_row_by_skip(2))
  ultimately show ?thesis by simp
next
  case False
  then obtain c where c: "m (priority report) = Some c"
    and g: "js_number (newLevel (hoursElapsed now report) c (escalation_level report))
              > js_number (escalation_level report)"
    and u: "\<not> update_fails w (cr_id report)"
    by auto
  have f: "sweep_row_by w now m report
           = (\<lambda>r. if cr_id r = cr_id report
                   then r\<lparr>escalation_level :=
                            newLevel (hoursElapsed now report) c (escalation_level report)\<rparr>
                   else r)"
    using c g u by (auto simp add: sweep_row_by_def Let_def fun_eq_iff)
  show ?thesis
    unfolding f using c g u
    by (simp add: sweep_report_def Let_def update_escalation_level_def split: option.splits)
qed

lemma civic_reports_foldl_sweep:
  "civic_reports (foldl (sweep_report w now m) st rs)
   = map (\<lambda>row. foldl (\<lambda>x r. sweep_row_by w now m r x) row rs) (civic_reports st)"
proof (induction rs arbitrary: st)
  case Nil
  then show ?case by simp
next
  case (Cons r rs)
  show ?case
    by (simp add: Cons.IH civic_reports_sweep_report)
qed

lemma sweep_row_by_id: "cr_id (sweep_row_by w now m r row) = cr_id row"
  by (simp add: sweep_row_by_def Let_def split: option.splits)

lemma sweep_row_by_other: "cr_id row \<noteq> cr_id r \<Longrightarrow> sweep_row_by w now m r row = row"
  by (simp add: sweep_row_by_def Let_def split: option.splits)

lemma foldl_sweep_row_none:
  "\<forall>r \<in> set rs. cr_id r \<noteq> cr_id row \<Longrightarrow> foldl (\<lambda>x r. sweep_row_by w now m r x) row rs = row"
  by (induction rs) (simp_all add: sweep_row_by_other)

lemma foldl_sweep_row_one:
  assumes "distinct (map cr_id rs)" "r \<in> set rs" "cr_id r = cr_id row"
  shows "foldl (\<lambda>x r. sweep_row_by w now m r x) row rs = sweep_row_by w now m r row"
  using assms
proof (induction rs arbitrary: row)
  case Nil
  then show ?case by simp
next
  case (Cons a rs)
  show ?case
  proof (cases "a = r")
    case True
    have "cr_id r \<notin> cr_id ` set rs"
      using Cons.prems(1) True by simp
    then have "\<forall>x \<in> set rs. cr_id x \<noteq> cr_id (sweep_row_by w now m r row)"
      unfolding sweep_row_by_id using Cons.prems(3) by (metis imageI)
    then show ?thesis
      using True by (simp add: foldl_sweep_row_none)
  next
    case False
    with Cons.prems have in_rs: "r \<in> set rs" and d: "distinct (map cr_id rs)"
      and na: "cr_id a \<notin> cr_id ` set rs"
      by simp_all
    from in_rs have "cr_id r \<in> cr_id ` set rs" by (rule imageI)
    with na Cons.prems(3) have ne: "cr_id a \<noteq> cr_id row" by metis
    have "sweep_row_by w now m a row = row"
      using ne by (simp add: sweep_row_by_other)
    then show ?thesis
      using Cons.IH[OF d in_rs Cons.prems(3)] by simp
  qed
qed

lemma newLevel_not_greater:
  "\<not> js_number (newLevel h c lvl) > js_number lvl \<Longrightarrow> newLevel h c lvl = lvl"
  by (auto simp add: newLevel_def js_number_def split: if_splits option.splits)

lemma sweep_row_by_self:
  "is_active_report r \<Longrightarrow> sweep_row_by w now (slaMap cfgs) r r = sweep_row w now cfgs r"
  by (auto simp add: sweep_row_by_def sweep_row_def Let_def newLevel_not_greater
      split: option.splits)

lemma civic_reports_sweep:
  assumes "distinct (map cr_id tbl)"
  shows "civic_reports (check_sla_escalations w now cfgs tbl etbl) = map (sweep_row w now cfgs) tbl"
proof -
  have d: "distinct (map cr_id (activeReports tbl))"
    using assms by (simp add: activeReports_def distinct_map_filter)
  have "foldl (\<lambda>x r. sweep_row_by w now (slaMap cfgs) r x) row (activeReports tbl)
        = sweep_row w now cfgs row" if row: "row \<in> set tbl" for row
  proof (cases "is_active_report row")
    case True
    then have "row \<in> set (activeReports tbl)"
      using row by (simp add: activeReports_def is_active_report_def)
    then show ?thesis
      using foldl_sweep_row_one[OF d, of row row] True by (simp add: sweep_row_by_self)
  next
    case False
    have "\<forall>r \<in> set (activeReports tbl). cr_id r \<noteq> cr_id row"
    proof
      fix r assume r: "r \<in> set (activeReports tbl)"
      then have "r \<in> set tbl" "is_active_report r"
        by (simp_all add: activeReports_def is_active_report_def)
      with False row assms show "cr_id r \<noteq> cr_id row"
        by (metis distinct_map inj_onD)
    qed
    then show ?thesis
      using False by (simp add: foldl_sweep_row_none sweep_row_def)
  qed
  then show ?thesis
    by (simp add: check_sla_escalations_def civic_reports_foldl_sweep)
qed

lemma slaMap_None: "slaMap cfgs p = None \<longleftrightarrow> (\<forall>c \<in> set cfgs. sla_priority c \<noteq> p)"
  by (force simp add: slaMap_def map_of_eq_None_iff)

lemma map_of_find:
  "map_of (map (\<lambda>s. (f s, s)) xs) p = find (\<lambda>s. f s = p) xs"
  by (induction xs) auto

lemma slaMap_find: "slaMap cfgs p = find (\<lambda>c. sla_priority c = p) (rev cfgs)"
proof -
  have "rev (map (\<lambda>s. (sla_priority s, s)) cfgs) = map (\<lambda>s. (sla_priority s, s)) (rev cfgs)"
    by (rule rev_map)
  then show ?thesis
    by (simp only: slaMap_def map_of_find)
qed

text \<open>
  Claim C3. On a table with distinct keys, one sweep at time \<open>now\<close> leaves every row as
  it was except for the escalation level of the active rows (status pending, in progress
  or reopened, due date set) whose priority has a configuration row and whose update is
  written. With the elapsed hours \<open>(now - created_at) / 3600000\<close> (milliseconds to hours,
  not rounded): the level becomes 2 when the elapsed hours exceed the level-2 threshold
  and the level is below 2, otherwise 1 when they exceed the level-1 threshold and the
  level is below 1, otherwise it stays. The configuration row of a priority is the last
  one fetched with that priority; a row whose priority has none is left as it was.
\<close>

theorem escalation_sweep_levels:
  assumes "distinct (map cr_id tbl)"
  shows "civic_reports (check_sla_escalations w now cfgs tbl etbl) =
     map (\<lambda>r. if status r \<in> {Pending, In_progress, Reopened} \<and> sla_due_at r \<noteq> None
                  \<and> \<not> update_fails w (cr_id r)
               then (case find (\<lambda>c. sla_priority c = priority r) (rev cfgs) of
                       None \<Rightarrow> r
                     | Some c \<Rightarrow>
                         (let elapsed = (of_int (now - (case created_at r of
                                                          None \<Rightarrow> 0 | Some t \<Rightarrow> t))
                                           / 3600000 :: rat);
                              level = (case escalation_level r of None \<Rightarrow> 0 | Some l \<Rightarrow> l)
                          in r\<lparr>escalation_level :=
                                 (if elapsed > of_int (escalation_level_2_hours c) \<and> level < 2
                                  then Some 2
                                  else if elapsed > of_int (escalation_level_1_hours c)
                                          \<and> level < 1
                                  then Some 1
                                  else escalation_level r)\<rparr>))
               else r) tbl
     \<and> (\<forall>p. find (\<lambda>c. sla_priority c = p) (rev cfgs) = None
              \<longleftrightarrow> (\<forall>c \<in> set cfgs. sla_priority c \<noteq> p))"
proof -
  have "sweep_row w now cfgs =
     (\<lambda>r. if status r \<in> {Pending, In_progress, Reopened} \<and> sla_due_at r \<noteq> None
                  \<and> \<not> update_fails w (cr_id r)
               then (case find (\<lambda>c. sla_priority c = priority r) (rev cfgs) of
                       None \<Rightarrow> r
                     | Some c \<Rightarrow>
                         (let elapsed = (of_int (now - (case created_at r of
                                                          None \<Rightarrow> 0 | Some t \<Rightarrow> t))
                                           / 3600000 :: rat);
                              level = (case escalation_level r of None \<Rightarrow> 0 | Some l \<Rightarrow> l)
                          in r\<lparr>escalation_level :=
                                 (if elapsed > of_int (escalation_level_2_hours c) \<and> level < 2
                                  then Some 2
                                  else if elapsed > of_int (escalation_level_1_hours c)
                                          \<and> level < 1
                                  then Some 1
                                  else escalation_level r)\<rparr>))
               else r)"
    by (rule ext)
      (simp add: sweep_row_def is_active_report_def newLevel_def slaMap_find hoursElapsed_def
        js_number_def hour_ms_def Let_def split: option.splits)
  moreover have "\<forall>p. find (\<lambda>c. sla_priority c = p) (rev cfgs) = None
              \<longleftrightarrow> (\<forall>c \<in> set cfgs. sla_priority c \<noteq> p)"
    by (auto simp add: find_None_iff)
  ultimately show ?thesis
    using civic_reports_sweep[OF assms, of w now cfgs etbl] by simp
qed

lemma foldl_sweep_report_skip:
  assumes "\<forall>report \<in> set rs. m (priority report) = None
           \<or> (\<exists>c. m (priority report) = Some c
                \<and> \<not> (js_number (newLevel (hoursElapsed now report) c (escalation_level report))
                       > js_number (escalation_level report)
                     \<and> \<not> update_fails w (cr_id report)))"
  shows "foldl (sweep_report w now m) st rs = st"
  using assms
proof (induction rs)
  case Nil
  then show ?case by simp
next
  case (Cons r rs)
  from Cons.prems have "m (priority r) = None
           \<or> (\<exists>c. m (priority r) = Some c
                \<and> \<not> (js_number (newLevel (hoursElapsed now r) c (escalation_level r))
                       > js_number (escalation_level r)
                     \<and> \<not> update_fails w (cr_id r)))"
    by simp
  then have "sweep_report w now m st r = st"
    by (rule sweep_row_by_skip(1))
  with Cons show ?case by simp
qed

lemma newLevel_idem: "newLevel h c (newLevel h c lvl) = newLevel h c lvl"
  by (simp add: newLevel_def js_number_def)

lemma sweep_row_settled:
  assumes "\<not> update_fails w (cr_id r0)"
    and "is_active_report (sweep_row w now cfgs r0)"
    and "slaMap cfgs (priority (sweep_row w now cfgs r0)) = Some c"
  shows "newLevel (hoursElapsed now (sweep_row w now cfgs r0)) c
           (escalation_level (sweep_row w now cfgs r0))
         = escalation_level (sweep_row w now cfgs r0)"
proof (cases "is_active_report r0")
  case True
  with assms(1,3) have "sweep_row w now cfgs r0
      = r0\<lparr>escalation_level := newLevel (hoursElapsed now r0) c (escalation_level r0)\<rparr>"
    by (auto simp add: sweep_row_def split: option.splits)
  then show ?thesis
    by (simp add: hoursElapsed_def newLevel_idem)
next
  case False
  then have "sweep_row w now cfgs r0 = r0" by (simp add: sweep_row_def)
  with assms(2) False show ?thesis by simp
qed

text \<open>
  Claim C4. The sweep is idempotent at a fixed time: after a first sweep whose updates
  were all written, a second sweep at the same time changes no report, adds no row to the
  escalation log and reports no escalation.
\<close>

theorem escalation_sweep_idempotent:
  assumes "distinct (map cr_id tbl)" and "\<forall>i. \<not> update_fails w1 i"
  shows "(let st1 = check_sla_escalations w1 now cfgs tbl etbl;
              st2 = check_sla_escalations w2 now cfgs (civic_reports st1) (escalations_table st1)
          in civic_reports st2 = civic_reports st1
           \<and> escalations_table st2 = escalations_table st1
           \<and> escalations st2 = [])"
proof -
  define st1 where "st1 = check_sla_escalations w1 now cfgs tbl etbl"
  have t1: "civic_reports st1 = map (sweep_row w1 now cfgs) tbl"
    unfolding st1_def using assms(1) by (rule civic_reports_sweep)
  have skip: "\<forall>report \<in> set (activeReports (civic_reports st1)).
           slaMap cfgs (priority report) = None
           \<or> (\<exists>c. slaMap cfgs (priority report) = Some c
                \<and> \<not> (js_number (newLevel (hoursElapsed now report) c (escalation_level report))
                       > js_number (escalation_level report)
                     \<and> \<not> update_fails w2 (cr_id report)))"
  proof
    fix report assume "report \<in> set (activeReports (civic_reports st1))"
    then obtain r0 where r0: "report = sweep_row w1 now cfgs r0" and a: "is_active_report report"
      unfolding t1 by (auto simp add: activeReports_def is_active_report_def)
    show "slaMap cfgs (priority report) = None
           \<or> (\<exists>c. slaMap cfgs (priority report) = Some c
                \<and> \<not> (js_number (newLevel (hoursElapsed now report) c (escalation_level report))
                       > js_number (escalation_level report)
                     \<and> \<not> update_fails w2 (cr_id report)))"
    proof (cases "slaMap cfgs (priority report)")
      case None
      then show ?thesis by simp
    next
      case (Some c)
      have "newLevel (hoursElapsed now report) c (escalation_level report)
            = escalation_level report"
        unfolding r0 using assms(2) a Some r0 by (intro sweep_row_settled) simp_all
      with Some show ?thesis by simp
    qed
  qed
  have "check_sla_escalations w2 now cfgs (civic_reports st1) (escalations_table st1)
        = \<lparr>civic_reports = civic_reports st1, escalations_table = escalations_table st1,
           escalations = []\<rparr>"
    unfolding check_sla_escalations_def using skip by (rule foldl_sweep_report_skip)
  then show ?thesis
    unfolding st1_def[symmetric] Let_def by simp
qed

lemma slaMap_default_high:
  "slaMap default_sla_config ''high'' = Some (sla_row ''high'' 8 72 24 48)"
  by (simp add: slaMap_def default_sla_config_def sla_row_def)

lemma active_fixture_simps:
  "cr_id (active_fixture l) = 1" "status (active_fixture l) = Pending"
  "sla_due_at (active_fixture l) = Some (72 * hour_ms)"
  "priority (active_fixture l) = ''high''"
  "escalation_level (active_fixture l) = Some l"
  "created_at (active_fixture l) = Some 0"
  by (simp_all add: active_fixture_def report_fixture_def)

text \<open>
  The scenario of the specification, for a report created at hour 100: the sweep at hour
  130 raises level 0 to 1, the sweep at hour 150 raises level 1 to 2, the sweep at hour
  110 changes nothing, and without configuration rows the sweep at hour 130 changes
  nothing.
\<close>

theorem escalation_sweep_levels_witness:
  "distinct (map cr_id [active_fixture_at (100 * hour_ms) 0])
   \<and> created_at (active_fixture_at (100 * hour_ms) 0) = Some (100 * 3600000)
   \<and> map escalation_level (civic_reports
        (check_sla_escalations no_faults (130 * hour_ms) default_sla_config
           [active_fixture_at (100 * hour_ms) 0] []))
      = [Some 1]
   \<and> map escalation_level (civic_reports
        (check_sla_escalations no_faults (150 * hour_ms) default_sla_config
           [active_fixture_at (100 * hour_ms) 1] []))
      = [Some 2]
   \<and> map escalation_level (civic_reports
        (check_sla_escalations no_faults (110 * hour_ms) default_sla_config
           [active_fixture_at (100 * hour_ms) 0] []))
      = [Some 0]
   \<and> map escalation_level (civic_reports
        (check_sla_escalations no_faults (130 * hour_ms) []
           [active_fixture_at (100 * hour_ms) 0] []))
      = [Some 0]"
proof -
  have f: "cr_id (active_fixture_at t l) = 1" "status (active_fixture_at t l) = Pending"
    "sla_due_at (active_fixture_at t l) = Some (t + 72 * hour_ms)"
    "priority (active_fixture_at t l) = ''high''"
    "escalation_level (active_fixture_at t l) = Some l"
    "created_at (active_fixture_at t l) = Some t" for t l
    by (simp_all add: active_fixture_at_def report_fixture_def)
  have c: "find (\<lambda>c. sla_priority c = ''high'') (rev default_sla_config)
           = Some (sla_row ''high'' 8 72 24 48)"
    by (simp add: default_sla_config_def sla_row_def)
  have e130: "map escalation_level (civic_reports
        (check_sla_escalations no_faults (130 * hour_ms) default_sla_config
           [active_fixture_at (100 * hour_ms) 0] []))
      = [Some 1]"
    using escalation_sweep_levels[where tbl="[active_fixture_at (100 * hour_ms) 0]"
        and w=no_faults and now="130 * hour_ms" and cfgs=default_sla_config and etbl="[]"]
    by (simp add: f c no_faults_def sla_row_def hour_ms_def)
  have e150: "map escalation_level (civic_reports
        (check_sla_escalations no_faults (150 * hour_ms) default_sla_config
           [active_fixture_at (100 * hour_ms) 1] []))
      = [Some 2]"
    using escalation_sweep_levels[where tbl="[active_fixture_at (100 * hour_ms) 1]"
        and w=no_faults and now="150 * hour_ms" and cfgs=default_sla_config and etbl="[]"]
    by (simp add: f c no_faults_def sla_row_def hour_ms_def)
  have e110: "map escalation_level (civic_reports
        (check_sla_escalations no_faults (110 * hour_ms) default_sla_config
           [active_fixture_at (100 * hour_ms) 0] []))
      = [Some 0]"
    using escalation_sweep_levels[where tbl="[active_fixture_at (100 * hour_ms) 0]"
        and w=no_faults and now="110 * hour_ms" and cfgs=default_sla_config and etbl="[]"]
    by (simp add: f c no_faults_def sla_row_def hour_ms_def)
  have n: "map escalation_level (civic_reports
        (check_sla_escalations no_faults (130 * hour_ms) []
           [active_fixture_at (100 * hour_ms) 0] []))
      = [Some 0]"
    using escalation_sweep_levels[where tbl="[active_fixture_at (100 * hour_ms) 0]"
        and w=no_faults and now="130 * hour_ms" and cfgs="[]" and etbl="[]"]
    by (simp add: f no_faults_def)
  show ?thesis
    using e130 e150 e110 n by (simp add: f hour_ms_def)
qed

lemma sweep_reason_example:
  "escalations_table
     (check_sla_escalations no_faults (30 * hour_ms) default_sla_config [active_fixture 0] [])
   = [\<lparr>report_id = 1, from_level = 0, to_level = 1,
       reason = ''SLA Level 1 breach - 30h elapsed (threshold: 24h)''\<rparr>]"
  by code_simp

theorem escalation_sweep_idempotent_witness:
  "distinct (map cr_id [active_fixture 0])
   \<and> map escalation_level (civic_reports
        (check_sla_escalations no_faults (30 * hour_ms) default_sla_config
          (civic_reports (check_sla_escalations no_faults (30 * hour_ms) default_sla_config
             [active_fixture 0] []))
          (escalations_table (check_sla_escalations no_faults (30 * hour_ms) default_sla_config
             [active_fixture 0] []))))
      = [Some 1]
   \<and> length (escalations_table
        (check_sla_escalations no_faults (30 * hour_ms) default_sla_config
          (civic_reports (check_sla_escalations no_faults (30 * hour_ms) default_sla_config
             [active_fixture 0] []))
          (escalations_table (check_sla_escalations no_faults (30 * hour_ms) default_sla_config
             [active_fixture 0] []))))
      = 1"
proof -
  have d: "distinct (map cr_id [active_fixture 0])" by simp
  have f: "\<forall>i. \<not> update_fails no_faults i" by (simp add: no_faults_def)
  have l: "map escalation_level (civic_reports
        (check_sla_escalations no_faults (30 * hour_ms) default_sla_config [active_fixture 0] []))
      = [Some 1]"
    by (simp add: check_sla_escalations_def activeReports_def sweep_report_def
      active_fixture_simps slaMap_default_high no_faults_def hoursElapsed_def newLevel_def
      js_number_def sla_row_def hour_ms_def Let_def update_escalation_level_def)
  show ?thesis
    using escalation_sweep_idempotent[OF d f, of "30 * hour_ms" default_sla_config "[]" no_faults]
    by (simp add: Let_def l sweep_reason_example)
qed

section \<open>Properties of the time-of-day multiplier\<close>

text \<open>
  Claim C8 as stated fails at hour 18: \<open>NOT BETWEEN 6 AND 18\<close> counts hour 18 as day,
  although 18 lies outside \<open>[6, 18)\<close>.
\<close>

theorem time_multiplier_hour_18:
  "(18::int) \<notin> {6..<18} \<and> time_multiplier ''streetlight'' 18 = 1"
  by (simp add: time_multiplier_def)

lemma streetlight_night_day:
  assumes "0 < base_score rules ''streetlight''" "base_score rules ''streetlight'' < 1"
  shows "fst (calculate_priority_score rules 14 ''streetlight'' lat lng (Some 1))
       < fst (calculate_priority_score rules 2 ''streetlight'' lat' lng' (Some 1))"
proof -
  define b where "b = base_score rules ''streetlight''"
  have d: "fst (calculate_priority_score rules 14 ''streetlight'' lat lng (Some 1)) = b"
    using assms(2)
    by (simp add: calculate_priority_score_def Let_def time_multiplier_def least_one_def b_def)
  have n: "fst (calculate_priority_score rules 2 ''streetlight'' lat' lng' (Some 1))
           = min (b * (13 / 10)) 1"
    by (simp add: calculate_priority_score_def Let_def time_multiplier_def least_one_def b_def)
  have "b < min (b * (13 / 10)) 1"
    using assms unfolding b_def[symmetric] by (simp add: min_def)
  with d n show ?thesis by simp
qed

text \<open>
  Claim C8, amended. The multiplier is \<open>1.3\<close> exactly when the issue type is
  \<open>streetlight\<close> and the hour is below 6 or above 18 (hours 0 to 5 and 19 to 23), and \<open>1\<close>
  in every other case; and when the base weight of \<open>streetlight\<close> lies strictly between 0
  and 1, a streetlight report with confidence 1 scores strictly more at hour 2 than at
  hour 14.
\<close>

theorem time_multiplier_spec:
  "(time_multiplier t h = 13 / 10 \<longleftrightarrow> t = ''streetlight'' \<and> (h < 6 \<or> 18 < h))
   \<and> (time_multiplier t h = 1 \<longleftrightarrow> \<not> (t = ''streetlight'' \<and> (h < 6 \<or> 18 < h)))
   \<and> (0 < base_score rules ''streetlight'' \<and> base_score rules ''streetlight'' < 1 \<longrightarrow>
        fst (calculate_priority_score rules 14 ''streetlight'' lat lng (Some 1))
        < fst (calculate_priority_score rules 2 ''streetlight'' lat lng (Some 1)))"
  using streetlight_night_day[of rules lat lng lat lng]
  by (auto simp add: time_multiplier_def)

theorem time_multiplier_spec_witness:
  "time_multiplier ''streetlight'' 2 = 13 / 10
   \<and> time_multiplier ''streetlight'' 14 = 1
   \<and> time_multiplier ''pothole'' 2 = 1
   \<and> base_score default_priority_rules ''streetlight'' = 4 / 5
   \<and> fst (calculate_priority_score default_priority_rules 14 ''streetlight'' None None (Some 1))
       < fst (calculate_priority_score default_priority_rules 2 ''streetlight'' None None (Some 1))"
proof -
  have b: "base_score default_priority_rules ''streetlight'' = 4 / 5"
    by (simp add: base_score_def select_priority_weight_def default_priority_rules_def
        issue_rule_def rule_matches_def)
  show ?thesis
    using time_multiplier_spec[of "''streetlight''" 2 default_priority_rules None None]
      time_multiplier_spec[of "''streetlight''" 14 default_priority_rules None None]
      time_multiplier_spec[of "''pothole''" 2 default_priority_rules None None]
    by (simp add: b)
qed

section \<open>Properties of the SLA calculator\<close>





section \<open>Properties of the rate limiter\<close>

lemma date_trunc_hour_div: "date_trunc_hour t = (t div 3600000) * 3600000"
  by (simp add: date_trunc_hour_def hour_ms_def minus_mod_eq_div_mult)

lemma CURRENT_DATE_div: "CURRENT_DATE t = (t div 3600000) div 24"
proof -
  have "t div (3600000 * 24) = (t div 3600000) div 24"
    by (rule zdiv_zmult2_eq) simp
  then show ?thesis
    by (simp add: CURRENT_DATE_def day_ms_def)
qed

lemma rate_limit_create:
  "check_and_update_rate_limit now u (tbl(u := None))
   = (rl_allowed 3 10, tbl(u \<mapsto> new_rate_limit now))"
  by (simp add: check_and_update_rate_limit_def)

lemma rate_limit_count:
  assumes "tbl u = Some ((new_rate_limit c)\<lparr>reports_today := k, reports_this_hour := k,
             last_report_at := l\<rparr>)" "k < 3" "t div 3600000 = c div 3600000"
  shows "check_and_update_rate_limit t u tbl
   = (rl_allowed (3 - k - 1) (10 - k - 1),
      tbl(u \<mapsto> (new_rate_limit c)\<lparr>reports_today := k + 1, reports_this_hour := k + 1,
             last_report_at := Some t\<rparr>))"
  using assms
  by (simp add: check_and_update_rate_limit_def new_rate_limit_def Let_def
      date_trunc_hour_div CURRENT_DATE_div)

lemma rate_limit_deny:
  assumes "tbl u = Some ((new_rate_limit c)\<lparr>reports_today := 3, reports_this_hour := 3,
             last_report_at := l\<rparr>)" "t div 3600000 = c div 3600000"
  shows "check_and_update_rate_limit t u tbl
   = (rl_denied ''Hourly limit reached'' (Timestamp (date_trunc_hour t + hour_ms)),
      tbl(u \<mapsto> (new_rate_limit c)\<lparr>reports_today := 3, reports_this_hour := 3,
             last_report_at := l\<rparr>))"
  using assms
  by (simp add: check_and_update_rate_limit_def new_rate_limit_def Let_def
      date_trunc_hour_div CURRENT_DATE_div)

lemma rate_limit_next_hour:
  assumes "tbl u = Some ((new_rate_limit c)\<lparr>reports_today := 3, reports_this_hour := 3,
             last_report_at := l\<rparr>)" "c div 3600000 < t div 3600000"
  shows "allowed (fst (check_and_update_rate_limit t u tbl))
       \<and> map_option reports_this_hour (snd (check_and_update_rate_limit t u tbl) u) = Some 1"
  using assms
  by (simp add: check_and_update_rate_limit_def new_rate_limit_def Let_def
      date_trunc_hour_div CURRENT_DATE_div rl_allowed_def)

lemma rate_limit_sequence:
  assumes "t2 div 3600000 = t1 div 3600000" "t3 div 3600000 = t1 div 3600000"
    "t4 div 3600000 = t1 div 3600000" "t5 div 3600000 = t1 div 3600000"
  shows "check_and_update_rate_limit t1 u (tbl(u := None))
         = (rl_allowed 3 10, tbl(u \<mapsto> new_rate_limit t1))"
    and "rate_limit_calls [t2, t3, t4, t5] u (tbl(u \<mapsto> new_rate_limit t1))
         = ([rl_allowed 2 9, rl_allowed 1 8, rl_allowed 0 7,
             rl_denied ''Hourly limit reached'' (Timestamp (date_trunc_hour t5 + hour_ms))],
            tbl(u \<mapsto> (new_rate_limit t1)\<lparr>reports_today := 3, reports_this_hour := 3,
                 last_report_at := Some t4\<rparr>))"
proof -
  define row where "row k l = (new_rate_limit t1)\<lparr>reports_today := k, reports_this_hour := k,
             last_report_at := l\<rparr>" for k l
  define s1 where "s1 = tbl(u \<mapsto> new_rate_limit t1)"
  show "check_and_update_rate_limit t1 u (tbl(u := None))
         = (rl_allowed 3 10, tbl(u \<mapsto> new_rate_limit t1))"
    by (rule rate_limit_create)
  have s1: "s1 u = Some (row 0 None)"
    by (simp add: s1_def row_def new_rate_limit_def)
  have c2: "check_and_update_rate_limit t2 u s1 = (rl_allowed 2 9, s1(u \<mapsto> row 1 (Some t2)))"
    using rate_limit_count[where tbl=s1 and u=u and c=t1 and k=0 and l=None and t=t2]
      s1 assms(1)
    by (simp add: row_def)
  have c3: "check_and_update_rate_limit t3 u (s1(u \<mapsto> row 1 (Some t2)))
            = (rl_allowed 1 8, s1(u \<mapsto> row 2 (Some t3)))"
    using rate_limit_count[where tbl="s1(u \<mapsto> row 1 (Some t2))" and u=u and c=t1
        and k=1 and l="Some t2" and t=t3] assms(2)
    by (simp add: row_def)
  have c4: "check_and_update_rate_limit t4 u (s1(u \<mapsto> row 2 (Some t3)))
            = (rl_allowed 0 7, s1(u \<mapsto> row 3 (Some t4)))"
    using rate_limit_count[where tbl="s1(u \<mapsto> row 2 (Some t3))" and u=u and c=t1
        and k=2 and l="Some t3" and t=t4] assms(3)
    by (simp add: row_def)
  have c5: "check_and_update_rate_limit t5 u (s1(u \<mapsto> row 3 (Some t4)))
            = (rl_denied ''Hourly limit reached'' (Timestamp (date_trunc_hour t5 + hour_ms)),
               s1(u \<mapsto> row 3 (Some t4)))"
    using rate_limit_deny[where tbl="s1(u \<mapsto> row 3 (Some t4))" and u=u and c=t1
        and l="Some t4" and t=t5] assms(4)
    by (simp add: row_def)
  show "rate_limit_calls [t2, t3, t4, t5] u (tbl(u \<mapsto> new_rate_limit t1))
         = ([rl_allowed 2 9, rl_allowed 1 8, rl_allowed 0 7,
             rl_denied ''Hourly limit reached'' (Timestamp (date_trunc_hour t5 + hour_ms))],
            tbl(u \<mapsto> (new_rate_limit t1)\<lparr>reports_today := 3, reports_this_hour := 3,
                 last_report_at := Some t4\<rparr>))"
    unfolding s1_def[symmetric] row_def[symmetric]
    by (simp add: c2 c3 c4 c5 Let_def) (simp add: s1_def)
qed

text \<open>
  Claim C5 as stated fails. A submitter with no row in \<open>user_rate_limits\<close> calls four
  times within one hour: the first call inserts the row and returns before any counter
  is touched, so the fourth call is allowed as well.
\<close>

theorem fourth_call_allowed:
  "map allowed (fst (rate_limit_calls [1000, 2000, 3000, 4000] 1 Map.empty))
   = [True, True, True, True]
   \<and> Map.empty (1::uuid) = (None :: user_rate_limit option)
   \<and> (1000::int) div 3600000 = 4000 div 3600000"
  by (simp add: check_and_update_rate_limit_def new_rate_limit_def Let_def rl_allowed_def
      date_trunc_hour_def CURRENT_DATE_def hour_ms_def day_ms_def)

text \<open>
  Claim C5, amended. For a submitter with no row in \<open>user_rate_limits\<close> and calls at
  times \<open>t1\<close> to \<open>t5\<close> within one hour: the first call inserts the row with both counters
  zero and untrusted, and is allowed, reporting 3 remaining in the hour, without being
  counted; the next three calls are allowed, reporting 2, 1 and 0 remaining; the fifth is
  denied with the reason \<open>Hourly limit reached\<close>, the hourly counter standing at 3. A call
  at a time \<open>t6\<close> in a later hour is allowed, and leaves the hourly counter at 1.
\<close>

theorem rate_limit_first_hour:
  assumes "t2 div 3600000 = t1 div 3600000" and "t3 div 3600000 = t1 div 3600000"
    and "t4 div 3600000 = t1 div 3600000" and "t5 div 3600000 = t1 div 3600000"
    and "t1 div 3600000 < t6 div 3600000"
  shows "(let r1 = check_and_update_rate_limit t1 u (tbl(u := None));
              r = rate_limit_calls [t2, t3, t4, t5] u (snd r1);
              r6 = check_and_update_rate_limit t6 u (snd r)
          in allowed (fst r1) \<and> rl_reason (fst r1) = None
           \<and> remaining_hourly (fst r1) = Some 3
           \<and> map_option reports_this_hour (snd r1 u) = Some 0
           \<and> map_option is_trusted (snd r1 u) = Some False
           \<and> map allowed (fst r) = [True, True, True, False]
           \<and> map rl_reason (fst r) = [None, None, None, Some ''Hourly limit reached'']
           \<and> map remaining_hourly (fst r) = [Some 2, Some 1, Some 0, None]
           \<and> map_option reports_this_hour (snd r u) = Some 3
           \<and> allowed (fst r6)
           \<and> map_option reports_this_hour (snd r6 u) = Some 1)"
proof -
  note s = rate_limit_sequence[OF assms(1-4), of u tbl]
  have n: "allowed (fst (check_and_update_rate_limit t6 u
             (tbl(u \<mapsto> (new_rate_limit t1)\<lparr>reports_today := 3, reports_this_hour := 3,
                 last_report_at := Some t4\<rparr>))))
       \<and> map_option reports_this_hour (snd (check_and_update_rate_limit t6 u
             (tbl(u \<mapsto> (new_rate_limit t1)\<lparr>reports_today := 3, reports_this_hour := 3,
                 last_report_at := Some t4\<rparr>))) u) = Some 1"
    by (rule rate_limit_next_hour[OF _ assms(5)]) simp
  show ?thesis
    unfolding Let_def s(1) snd_conv s(2) fst_conv
    using n by (simp add: rl_allowed_def rl_denied_def new_rate_limit_def)
qed

theorem rate_limit_first_hour_witness:
  "(2000::int) div 3600000 = 1000 div 3600000 \<and> (3000::int) div 3600000 = 1000 div 3600000
   \<and> (4000::int) div 3600000 = 1000 div 3600000 \<and> (5000::int) div 3600000 = 1000 div 3600000
   \<and> (1000::int) div 3600000 < 3600000 div 3600000
   \<and> map allowed (fst (rate_limit_calls [1000, 2000, 3000, 4000, 5000] 1 Map.empty))
       = [True, True, True, True, False]
   \<and> map rl_reason (fst (rate_limit_calls [1000, 2000, 3000, 4000, 5000] 1 Map.empty))
       = [None, None, None, None, Some ''Hourly limit reached'']
   \<and> allowed (fst (check_and_update_rate_limit 3600000 1
        (snd (rate_limit_calls [1000, 2000, 3000, 4000, 5000] 1 Map.empty))))
   \<and> map_option reports_this_hour
        (snd (check_and_update_rate_limit 3600000 1
           (snd (rate_limit_calls [1000, 2000, 3000, 4000, 5000] 1 Map.empty))) 1) = Some 1"
proof -
  have a: "(2000::int) div 3600000 = 1000 div 3600000" "(3000::int) div 3600000 = 1000 div 3600000"
    "(4000::int) div 3600000 = 1000 div 3600000" "(5000::int) div 3600000 = 1000 div 3600000"
    "(1000::int) div 3600000 < 3600000 div 3600000"
    by simp_all
  define r1 where "r1 = check_and_update_rate_limit 1000 1 Map.empty"
  define r where "r = rate_limit_calls [2000, 3000, 4000, 5000] 1 (snd r1)"
  define r6 where "r6 = check_and_update_rate_limit 3600000 1 (snd r)"
  have e: "(Map.empty :: uuid \<Rightarrow> user_rate_limit option)(1 := None) = Map.empty" by simp
  have th: "allowed (fst r1) \<and> rl_reason (fst r1) = None
           \<and> remaining_hourly (fst r1) = Some 3
           \<and> map_option reports_this_hour (snd r1 1) = Some 0
           \<and> map_option is_trusted (snd r1 1) = Some False
           \<and> map allowed (fst r) = [True, True, True, False]
           \<and> map rl_reason (fst r) = [None, None, None, Some ''Hourly limit reached'']
           \<and> map remaining_hourly (fst r) = [Some 2, Some 1, Some 0, None]
           \<and> map_option reports_this_hour (snd r 1) = Some 3
           \<and> allowed (fst r6)
           \<and> map_option reports_this_hour (snd r6 1) = Some 1"
    unfolding r1_def r_def r6_def
    by (rule rate_limit_first_hour[OF a, of 1 Map.empty, unfolded Let_def e])
  have c: "rate_limit_calls [1000, 2000, 3000, 4000, 5000] 1 Map.empty = (fst r1 # fst r, snd r)"
    unfolding r1_def r_def by (simp add: Let_def)
  show ?thesis
    unfolding c snd_conv fst_conv r6_def[symmetric]
    using a th by simp
qed

section \<open>Properties of the reopen operations\<close>

text \<open>
  Claim C7, on the code. On a table holding the one report \<open>r\<close>, the submitter's
  \<open>handleReopenReport\<close> sets the status to reopened and clears \<open>resolved_at\<close> but leaves
  the escalation level as it was; the staff update \<open>handleUpdateReport\<close> with the status
  \<open>reopened\<close> does the same and adds one to the level.
\<close>

theorem reopen_paths:
  "handleReopenReport (Some u) (cr_id r) [r] = [r\<lparr>status := Reopened, resolved_at := None\<rparr>]
   \<and> handleUpdateReport (Some v) (Some Reopened) now (cr_id r) r [r]
       = [r\<lparr>status := Reopened, resolved_at := None,
            escalation_level := Some (js_number (escalation_level r) + 1)\<rparr>]"
  by (simp add: handleReopenReport_def handleUpdateReport_def update_civic_report_def
      apply_update_def Let_def)

section \<open>Properties of the duplicate detector\<close>










text \<open>
  Claim C10. The result of the detector, a row, no row or an error, does not depend on
  \<open>p_user_id\<close>; and a report of the caller that passes the conditions of the query, alone
  in the table, is the match returned to the caller.
\<close>

theorem check_duplicate_report_user_independent:
  "check_duplicate_report err tbl now p_lat p_lng t u1 r w
   = check_duplicate_report err tbl now p_lat p_lng t u2 r w
   \<and> (let arg = cos (of_rat p_lat * pi / 180) * cos (of_rat lat * pi / 180)
                  * cos (of_rat lng * pi / 180 - of_rat p_lng * pi / 180)
                + sin (of_rat p_lat * pi / 180) * sin (of_rat lat * pi / 180)
                + err p_lat p_lng lat lng
       in issue_type cr = t \<and> status cr \<noteq> Resolved \<and> status cr \<noteq> Rejected
          \<and> created_at cr = Some tc \<and> now - w * 3600000 < tc
          \<and> latitude cr = Some lat \<and> longitude cr = Some lng
          \<and> - 1 \<le> arg \<and> arg \<le> 1 \<and> 6371000 * arccos arg \<le> of_int r
          \<longrightarrow> check_duplicate_report err [cr] now p_lat p_lng t (cr_user_id cr) r w
              = Inr [\<lparr>dm_is_duplicate = True, existing_report_id = cr_id cr,
                       existing_title = title cr,
                       distance_meters = round_double (6371000 * arccos arg),
                       hours_ago = Some (round_numeric (of_int (now - tc) / 3600000))\<rparr>])"
  by (auto simp add: check_duplicate_report_def Let_def where_distance_def great_circle_def
      acos_def cos_angle_def radians_def hour_ms_def select_match_def hrs_ago_def)









lemma great_circle_colocated:
  "great_circle colocated_rounding (769 / 50) (387973 / 5000) (769 / 50) (387973 / 5000)
   = Inl Numeric_value_out_of_range"
proof -
  have "cos_angle colocated_rounding (769 / 50) (387973 / 5000) (769 / 50) (387973 / 5000)
        = 1 + 1 / 2 ^ 52"
    by (simp add: cos_angle_def colocated_rounding_def power2_eq_square[symmetric])
  then show ?thesis
    by (simp add: great_circle_def acos_def)
qed

lemma fixture_fields:
  "cr_id (report_fixture i u p t) = i" "cr_user_id (report_fixture i u p t) = u"
  "title (report_fixture i u p t) = ''Pothole''"
  "created_at (report_fixture i u p t) = Some t"
  "is_duplicate (report_fixture i u p t) = Some False"
  "issue_type (report_fixture i u p t) = ''pothole''"
  "status (report_fixture i u p t) = Pending"
  "latitude (report_fixture i u p t) = Some 0"
  "longitude (report_fixture i u p t) = Some 0"
  by (simp_all add: report_fixture_def)






lemma where_colocated:
  "where_distance colocated_rounding hour_ms (769 / 50) (387973 / 5000) ''pothole'' 100 72
     colocated_fixture = Inl Numeric_value_out_of_range"
  by (simp add: where_distance_def colocated_fixture_def report_fixture_def
      great_circle_colocated hour_ms_def)


theorem check_duplicate_report_user_independent_witness:
  "check_duplicate_report no_rounding [report_fixture 1 7 ''medium'' 0] hour_ms 0 0
     ''pothole'' 7 100 72
   = Inr [\<lparr>dm_is_duplicate = True, existing_report_id = 1, existing_title = ''Pothole'',
            distance_meters = 0, hours_ago = Some 1\<rparr>]
   \<and> cr_user_id (report_fixture 1 7 ''medium'' 0) = 7"
proof -
  let ?r = "report_fixture 1 7 ''medium'' 0"
  define arg where "arg = cos (of_rat (0::rat) * pi / 180) * cos (of_rat (0::rat) * pi / 180)
                  * cos (of_rat (0::rat) * pi / 180 - of_rat (0::rat) * pi / 180)
                + sin (of_rat (0::rat) * pi / 180) * sin (of_rat (0::rat) * pi / 180)
                + no_rounding 0 0 0 0"
  have T: "issue_type ?r = ''pothole'' \<and> status ?r \<noteq> Resolved \<and> status ?r \<noteq> Rejected
          \<and> created_at ?r = Some 0 \<and> hour_ms - 72 * 3600000 < 0
          \<and> latitude ?r = Some 0 \<and> longitude ?r = Some 0
          \<and> - 1 \<le> arg \<and> arg \<le> 1 \<and> 6371000 * arccos arg \<le> real_of_int 100
          \<longrightarrow> check_duplicate_report no_rounding [?r] hour_ms 0 0 ''pothole'' (cr_user_id ?r)
                100 72
              = Inr [\<lparr>dm_is_duplicate = True, existing_report_id = cr_id ?r,
                       existing_title = title ?r,
                       distance_meters = round_double (6371000 * arccos arg),
                       hours_ago = Some (round_numeric (of_int (hour_ms - 0) / 3600000))\<rparr>]"
    unfolding arg_def
    by (rule check_duplicate_report_user_independent[where err=no_rounding and cr="?r"
        and now=hour_ms and p_lat=0 and p_lng=0 and t="''pothole''" and r=100 and w=72
        and lat=0 and lng=0 and tc=0, unfolded Let_def, THEN conjunct2])
  have a: "arg = 1"
    by (simp add: arg_def no_rounding_def)
  have h: "round_numeric (rat_of_int (hour_ms - 0) / 3600000) = 1"
    by code_simp
  have k0: "round_double 0 = 0" by (simp add: round_double_def)
  have "check_duplicate_report no_rounding [?r] hour_ms 0 0 ''pothole'' (cr_user_id ?r) 100 72
              = Inr [\<lparr>dm_is_duplicate = True, existing_report_id = cr_id ?r,
                       existing_title = title ?r,
                       distance_meters = round_double (6371000 * arccos arg),
                       hours_ago = Some (round_numeric (of_int (hour_ms - 0) / 3600000))\<rparr>]"
    using T by (simp add: fixture_fields a hour_ms_def)
  then show ?thesis
    unfolding h a by (simp add: fixture_fields k0)
qed

section \<open>Properties of the duplicate flag of a submission\<close>











end
